theory Spec2Isabelle
  imports Main "HOL-Library.Multiset"
begin

section \<open>Values exchanged with the run time\<close>

text \<open>
  A thrown or rejected JavaScript error: the handlers of \<^verbatim>\<open>index.js\<close> read only its
  \<^verbatim>\<open>code\<close> property (absent on most errors, the SQLSTATE on errors of the database
  driver).
\<close>

record js_error =
  code :: "string option"
  message :: string

text \<open>
  A field of \<^verbatim>\<open>req.body\<close> as the forms of the application post it: a text, or absent
  (\<^verbatim>\<open>undefined\<close>). \<^verbatim>\<open>!field\<close> holds for an absent field and for the empty text.
\<close>

type_synonym field = "string option"

definition falsy :: "field \<Rightarrow> bool" where
  "falsy v = (case v of None \<Rightarrow> True | Some s \<Rightarrow> s = [])"

definition text_of :: "field \<Rightarrow> string" where
  "text_of v = (case v of None \<Rightarrow> [] | Some s \<Rightarrow> s)"

section \<open>The relational store\<close>

record user_row =
  user_id :: int
  username :: string
  password :: string

record post_row =
  post_id :: int
  title :: string
  content :: string
  author :: string

text \<open>
  Calls that leave the process: a query sent to the database with its text and
  parameters, a call of the credential hasher, a call of \<^verbatim>\<open>req.login\<close>.
\<close>

datatype param = P_text string | P_int int

datatype call =
    Db_query string "param list"
  | Bcrypt_hash string nat
  | Bcrypt_compare string string
  | Req_login int

text \<open>
  The state a request runs in: the two tables, the counters the store draws fresh ids
  from, and the calls issued so far (oldest first).
\<close>

record world =
  users :: "user_row list"
  posts :: "post_row list"
  users_id_seq :: int
  posts_id_seq :: int
  calls :: "call list"

text \<open>
  What the collaborators outside \<^verbatim>\<open>index.js\<close> do during one request. Each handler
  sends at most one query, so one optional failure describes the store:
  \<^item> \<open>db_fault\<close>: the error \<^verbatim>\<open>db.query\<close> rejects with, if the store fails (connection
    lost, time-out, ...);
  \<^item> \<open>int4in\<close>: the store's reading of a text parameter as an integer id, \<open>None\<close>
    where it rejects the text;
  \<^item> \<open>bcrypt_hash\<close>, \<open>bcrypt_compare\<close>: the credential hasher, which may reject;
  \<^item> \<open>login_fault\<close>: the error \<^verbatim>\<open>req.login\<close> hands to its callback, if any.
\<close>

record env =
  db_fault :: "js_error option"
  int4in :: "string \<Rightarrow> int option"
  bcrypt_hash :: "string \<Rightarrow> nat \<Rightarrow> js_error + string"
  bcrypt_compare :: "string \<Rightarrow> string \<Rightarrow> js_error + bool"
  login_fault :: "js_error option"

definition issue :: "call \<Rightarrow> world \<Rightarrow> world" where
  "issue c w = w\<lparr>calls := calls w @ [c]\<rparr>"

definition unique_violation :: js_error where
  "unique_violation =
     \<lparr>code = Some ''23505'', message = ''duplicate key value violates unique constraint''\<rparr>"

definition invalid_text_representation :: js_error where
  "invalid_text_representation =
     \<lparr>code = Some ''22P02'', message = ''invalid input syntax for type integer''\<rparr>"

text \<open>\<^verbatim>\<open>db.query('SELECT * FROM users WHERE username = $1', [username])\<close>\<close>

definition select_users_by_username ::
  "env \<Rightarrow> world \<Rightarrow> string \<Rightarrow> (js_error + user_row list) \<times> world" where
  "select_users_by_username e w name =
     (let w' = issue (Db_query ''SELECT * FROM users WHERE username = $1'' [P_text name]) w
      in case db_fault e of
           Some err \<Rightarrow> (Inl err, w')
         | None \<Rightarrow> (Inr (filter (\<lambda>r. username r = name) (users w')), w'))"

text \<open>\<^verbatim>\<open>db.query('SELECT * FROM users WHERE id = $1', [id])\<close>\<close>

definition select_users_by_id ::
  "env \<Rightarrow> world \<Rightarrow> int \<Rightarrow> (js_error + user_row list) \<times> world" where
  "select_users_by_id e w i =
     (let w' = issue (Db_query ''SELECT * FROM users WHERE id = $1'' [P_int i]) w
      in case db_fault e of
           Some err \<Rightarrow> (Inl err, w')
         | None \<Rightarrow> (Inr (filter (\<lambda>r. user_id r = i) (users w')), w'))"

text \<open>\<^verbatim>\<open>db.query('SELECT * FROM posts ORDER BY id DESC')\<close>\<close>

definition select_posts_order_by_id_desc ::
  "env \<Rightarrow> world \<Rightarrow> (js_error + post_row list) \<times> world" where
  "select_posts_order_by_id_desc e w =
     (let w' = issue (Db_query ''SELECT * FROM posts ORDER BY id DESC'' []) w
      in case db_fault e of
           Some err \<Rightarrow> (Inl err, w')
         | None \<Rightarrow> (Inr (rev (sort_key post_id (posts w'))), w'))"

text \<open>
  \<^verbatim>\<open>db.query('SELECT * FROM posts WHERE id = $1', [req.params.id])\<close>: the parameter is
  the text of the URL segment; the store rejects a text that is no integer.
\<close>

definition select_posts_by_id ::
  "env \<Rightarrow> world \<Rightarrow> string \<Rightarrow> (js_error + post_row list) \<times> world" where
  "select_posts_by_id e w idtext =
     (let w' = issue (Db_query ''SELECT * FROM posts WHERE id = $1'' [P_text idtext]) w
      in case db_fault e of
           Some err \<Rightarrow> (Inl err, w')
         | None \<Rightarrow>
             (case int4in e idtext of
                None \<Rightarrow> (Inl invalid_text_representation, w')
              | Some i \<Rightarrow> (Inr (filter (\<lambda>r. post_id r = i) (posts w')), w')))"

text \<open>
  Modelled from the spec: the schema of the \<^verbatim>\<open>users\<close> table, which is not among the
  sources. The spec gives \<^verbatim>\<open>users(id, username unique, password)\<close> with the id a unique
  integer the store assigns: an insert of a taken username is rejected with the
  duplicate-key error 23505 and changes nothing; otherwise the row is appended under the
  next id.

  \<^verbatim>\<open>db.query('INSERT INTO users (username, password) VALUES ($1, $2) RETURNING id, username',
  [username, hashedPassword])\<close>; on success the one returned row is \<^verbatim>\<open>result.rows[0]\<close>.
\<close>

definition insert_user ::
  "env \<Rightarrow> world \<Rightarrow> string \<Rightarrow> string \<Rightarrow> (js_error + int \<times> string) \<times> world" where
  "insert_user e w name hashed =
     (let w' = issue (Db_query
                 ''INSERT INTO users (username, password) VALUES ($1, $2) RETURNING id, username''
                 [P_text name, P_text hashed]) w
      in case db_fault e of
           Some err \<Rightarrow> (Inl err, w')
         | None \<Rightarrow>
             if name \<in> set (map username (users w')) then (Inl unique_violation, w')
             else (Inr (users_id_seq w', name),
                   w'\<lparr>users := users w' @
                         [\<lparr>user_id = users_id_seq w', username = name, password = hashed\<rparr>],
                      users_id_seq := users_id_seq w' + 1\<rparr>))"

text \<open>
  Modelled from the spec: the schema of the \<^verbatim>\<open>posts\<close> table, which is not among the
  sources. The spec gives \<^verbatim>\<open>posts(id, title, content, author)\<close> with ids in creation
  order: the row is appended under the next id.

  \<^verbatim>\<open>db.query('INSERT INTO posts (title, content, author) VALUES ($1, $2, $3)',
  [title, content, req.user.username])\<close>
\<close>

definition insert_post ::
  "env \<Rightarrow> world \<Rightarrow> string \<Rightarrow> string \<Rightarrow> string \<Rightarrow> js_error option \<times> world" where
  "insert_post e w t c a =
     (let w' = issue (Db_query
                 ''INSERT INTO posts (title, content, author) VALUES ($1, $2, $3)''
                 [P_text t, P_text c, P_text a]) w
      in case db_fault e of
           Some err \<Rightarrow> (Some err, w')
         | None \<Rightarrow>
             (None,
              w'\<lparr>posts := posts w' @
                    [\<lparr>post_id = posts_id_seq w', title = t, content = c, author = a\<rparr>],
                 posts_id_seq := posts_id_seq w' + 1\<rparr>))"

section \<open>Credential hasher and session calls\<close>

definition hash_password :: "env \<Rightarrow> world \<Rightarrow> string \<Rightarrow> nat \<Rightarrow> (js_error + string) \<times> world" where
  "hash_password e w plain rounds = (bcrypt_hash e plain rounds, issue (Bcrypt_hash plain rounds) w)"

definition compare_password :: "env \<Rightarrow> world \<Rightarrow> string \<Rightarrow> string \<Rightarrow> (js_error + bool) \<times> world" where
  "compare_password e w plain hashed =
     (bcrypt_compare e plain hashed, issue (Bcrypt_compare plain hashed) w)"

text \<open>\<^verbatim>\<open>passport.serializeUser((user, done) => done(null, user.id))\<close>\<close>

definition serializeUser :: "int \<times> string \<Rightarrow> int" where
  "serializeUser user = fst user"

text \<open>
  \<^verbatim>\<open>req.login(user, callback)\<close>: the call is recorded with the serialized user; the
  callback receives the session's error, if any.
\<close>

definition req_login :: "env \<Rightarrow> world \<Rightarrow> int \<times> string \<Rightarrow> js_error option \<times> world" where
  "req_login e w user = (login_fault e, issue (Req_login (serializeUser user)) w)"

section \<open>Responses\<close>

datatype view =
    Home "post_row list"
  | Post post_row
  | Register "string option"
  | Sign_in "string option"
  | Write "string option" "string option"

text \<open>
  \<open>Render status view\<close> is \<^verbatim>\<open>res.status(status).render(...)\<close> (200 when no status is
  set), \<open>Send\<close> is \<^verbatim>\<open>res.status(status).send(text)\<close>, \<open>Redirect\<close> is \<^verbatim>\<open>res.redirect\<close>,
  \<open>Next\<close> is \<^verbatim>\<open>next(err)\<close>. The arguments of \<open>Write\<close> are the \<^verbatim>\<open>error\<close> and the
  \<^verbatim>\<open>success\<close> local.
\<close>

datatype response =
    Render nat view
  | Send nat string
  | Redirect string
  | Next js_error

section \<open>Authentication\<close>

text \<open>The three ways the verify callback calls \<^verbatim>\<open>done\<close>.\<close>

datatype verified =
    Verify_error js_error
  | Verify_fail string
  | Verify_user user_row

definition LocalStrategy :: "env \<Rightarrow> world \<Rightarrow> string \<Rightarrow> string \<Rightarrow> verified \<times> world" where
  "LocalStrategy e w name plain =
     (case select_users_by_username e w name of
        (Inl error, w1) \<Rightarrow> (Verify_error error, w1)
      | (Inr [], w1) \<Rightarrow> (Verify_fail ''Invalid username or password'', w1)
      | (Inr (user # _), w1) \<Rightarrow>
          (case compare_password e w1 plain (password user) of
             (Inl error, w2) \<Rightarrow> (Verify_error error, w2)
           | (Inr isMatch, w2) \<Rightarrow>
               if \<not> isMatch then (Verify_fail ''Invalid username or password'', w2)
               else (Verify_user user, w2)))"

text \<open>
  The callback \<^verbatim>\<open>(err, user, info)\<close> that \<^verbatim>\<open>POST /sign-in\<close> hands to
  \<^verbatim>\<open>passport.authenticate\<close>.
\<close>

definition sign_in_callback :: "env \<Rightarrow> verified \<times> world \<Rightarrow> response \<times> world" where
  "sign_in_callback e r =
     (case r of
        (Verify_error err, w) \<Rightarrow> (Next err, w)
      | (Verify_fail info_message, w) \<Rightarrow> (Render 401 (Sign_in (Some info_message)), w)
      | (Verify_user user, w) \<Rightarrow>
          (case req_login e w (user_id user, username user) of
             (Some err, w') \<Rightarrow> (Next err, w')
           | (None, w') \<Rightarrow> (Redirect ''/welcome'', w')))"

text \<open>The three ways \<^verbatim>\<open>passport.deserializeUser\<close> calls \<^verbatim>\<open>done\<close>.\<close>

datatype deserialized =
    Deserialize_error js_error
  | Deserialize_false
  | Deserialize_user user_row

definition deserializeUser :: "env \<Rightarrow> world \<Rightarrow> int \<Rightarrow> deserialized \<times> world" where
  "deserializeUser e w i =
     (case select_users_by_id e w i of
        (Inl error, w1) \<Rightarrow> (Deserialize_error error, w1)
      | (Inr [], w1) \<Rightarrow> (Deserialize_false, w1)
      | (Inr (row # _), w1) \<Rightarrow> (Deserialize_user row, w1))"

text \<open>
  \<^verbatim>\<open>req.user\<close> is the user the session middleware attached to the request, if any;
  \<^verbatim>\<open>req.isAuthenticated()\<close> tells whether there is one.
\<close>

definition isAuthenticated :: "user_row option \<Rightarrow> bool" where
  "isAuthenticated req_user = (req_user \<noteq> None)"

definition ensureAuthenticated ::
  "user_row option \<Rightarrow> world \<Rightarrow> response \<times> world \<Rightarrow> response \<times> world" where
  "ensureAuthenticated req_user w next =
     (if isAuthenticated req_user then next
      else (Redirect ''/sign-in'', w))"

section \<open>Routes\<close>

text \<open>\<^verbatim>\<open>app.get('/')\<close>\<close>

definition get_home :: "env \<Rightarrow> world \<Rightarrow> response \<times> world" where
  "get_home e w =
     (case select_posts_order_by_id_desc e w of
        (Inr rows, w1) \<Rightarrow> (Render 200 (Home rows), w1)
      | (Inl error, w1) \<Rightarrow> (Render 200 (Home []), w1))"

text \<open>\<^verbatim>\<open>app.get('/posts/:id')\<close>\<close>

definition get_post :: "env \<Rightarrow> world \<Rightarrow> string \<Rightarrow> response \<times> world" where
  "get_post e w idtext =
     (case select_posts_by_id e w idtext of
        (Inr [], w1) \<Rightarrow> (Send 404 ''Post not found'', w1)
      | (Inr (row # _), w1) \<Rightarrow> (Render 200 (Post row), w1)
      | (Inl error, w1) \<Rightarrow> (Send 500 ''Server error'', w1))"

text \<open>\<^verbatim>\<open>app.post('/register')\<close>: the \<^verbatim>\<open>catch\<close> block, then the handler.\<close>

definition register_catch :: "js_error \<Rightarrow> world \<Rightarrow> response \<times> world" where
  "register_catch error w =
     (if code error = Some ''23505''
      then (Redirect ''/sign-in?error=Username already exists. Please sign in'', w)
      else (Render 500 (Register (Some ''Internal server error.'')), w))"

definition post_register :: "env \<Rightarrow> world \<Rightarrow> field \<Rightarrow> field \<Rightarrow> response \<times> world" where
  "post_register e w username_field password_field =
     (if falsy username_field \<or> falsy password_field
      then (Render 400 (Register (Some ''Username and password are required.'')), w)
      else
        (case hash_password e w (text_of password_field) 10 of
           (Inl error, w1) \<Rightarrow> register_catch error w1
         | (Inr hashedPassword, w1) \<Rightarrow>
             (case insert_user e w1 (text_of username_field) hashedPassword of
                (Inl error, w2) \<Rightarrow> register_catch error w2
              | (Inr user, w2) \<Rightarrow>
                  (case req_login e w2 user of
                     (Some err, w3) \<Rightarrow> (Redirect ''/sign-in'', w3)
                   | (None, w3) \<Rightarrow> (Redirect ''/welcome.html'', w3)))))"

text \<open>
  \<^verbatim>\<open>app.post('/write', ensureAuthenticated, ...)\<close>: the handler proper, then the
  route behind its guard. Reading \<^verbatim>\<open>req.user.username\<close> without a user throws inside
  the \<^verbatim>\<open>try\<close> block, before the query is sent.
\<close>

definition write_handler ::
  "env \<Rightarrow> world \<Rightarrow> user_row option \<Rightarrow> field \<Rightarrow> field \<Rightarrow> response \<times> world" where
  "write_handler e w req_user title_field content_field =
     (if falsy title_field \<or> falsy content_field
      then (Render 400 (Write (Some ''Title and content are required.'') None), w)
      else
        (case req_user of
           None \<Rightarrow> (Render 500 (Write (Some ''Internal server error.'') None), w)
         | Some user \<Rightarrow>
             (case insert_post e w (text_of title_field) (text_of content_field) (username user) of
                (None, w1) \<Rightarrow> (Render 200 (Write None (Some ''Post created successfully!'')), w1)
              | (Some error, w1) \<Rightarrow>
                  (Render 500 (Write (Some ''Internal server error.'') None), w1))))"

definition post_write ::
  "env \<Rightarrow> world \<Rightarrow> user_row option \<Rightarrow> field \<Rightarrow> field \<Rightarrow> response \<times> world" where
  "post_write e w req_user title_field content_field =
     ensureAuthenticated req_user w (write_handler e w req_user title_field content_field)"

section \<open>A sample environment\<close>

text \<open>
  Stand-ins for the collaborators, for running the handlers on concrete requests: a
  hasher that prefixes the reversed plaintext, a reader of unsigned decimal ids, a store
  and a session that do not fail.
\<close>

definition sample_hash :: "string \<Rightarrow> nat \<Rightarrow> js_error + string" where
  "sample_hash plain rounds = Inr (''$2b$10$'' @ rev plain)"

definition sample_compare :: "string \<Rightarrow> string \<Rightarrow> js_error + bool" where
  "sample_compare plain hashed = Inr (hashed = ''$2b$10$'' @ rev plain)"

fun decimal :: "string \<Rightarrow> int \<Rightarrow> int option" where
  "decimal [] acc = Some acc"
| "decimal (c # cs) acc =
     (if c \<in> set ''0123456789''
      then decimal cs (10 * acc + int (of_char c - (48::nat)))
      else None)"

definition sample_int4in :: "string \<Rightarrow> int option" where
  "sample_int4in s = (if s = [] then None else decimal s 0)"

definition sample_env :: env where
  "sample_env =
     \<lparr>db_fault = None, int4in = sample_int4in, bcrypt_hash = sample_hash,
      bcrypt_compare = sample_compare, login_fault = None\<rparr>"

definition connection_lost :: js_error where
  "connection_lost = \<lparr>code = Some ''ECONNRESET'', message = ''Connection terminated''\<rparr>"

definition session_lost :: js_error where
  "session_lost = \<lparr>code = None, message = ''Failed to serialize user into session''\<rparr>"

definition hash_failure :: js_error where
  "hash_failure = \<lparr>code = None, message = ''data and salt arguments required''\<rparr>"

definition store_failing_env :: env where
  "store_failing_env = sample_env\<lparr>db_fault := Some connection_lost\<rparr>"

definition hash_failing_env :: env where
  "hash_failing_env = sample_env\<lparr>bcrypt_hash := (\<lambda>plain rounds. Inl hash_failure)\<rparr>"

definition login_failing_env :: env where
  "login_failing_env = sample_env\<lparr>login_fault := Some session_lost\<rparr>"

definition coded_hash_failing_env :: env where
  "coded_hash_failing_env = sample_env\<lparr>bcrypt_hash := (\<lambda>plain rounds. Inl unique_violation)\<rparr>"

definition duplicate_reporting_env :: env where
  "duplicate_reporting_env = sample_env\<lparr>db_fault := Some unique_violation\<rparr>"

definition empty_world :: world where
  "empty_world = \<lparr>users = [], posts = [], users_id_seq = 1, posts_id_seq = 1, calls = []\<rparr>"

definition alice :: user_row where
  "alice = \<lparr>user_id = 1, username = ''alice'', password = ''$2b$10$wp''\<rparr>"

definition sample_world :: world where
  "sample_world =
     \<lparr>users = [alice],
      posts = [\<lparr>post_id = 1, title = ''Hello'', content = ''First post'', author = ''alice''\<rparr>,
               \<lparr>post_id = 2, title = ''Again'', content = ''Second post'', author = ''alice''\<rparr>],
      users_id_seq = 2, posts_id_seq = 3, calls = []\<rparr>"

section \<open>Sign-in\<close>

lemma sign_in_callback_fail:
  "fst r = Verify_fail m \<Longrightarrow> fst (sign_in_callback e r) = Render 401 (Sign_in (Some m))"
  by (cases r) (simp add: sign_in_callback_def)

lemma LocalStrategy_absent:
  assumes "db_fault e = None" and "name \<notin> set (map username (users w))"
  shows "fst (LocalStrategy e w name plain) = Verify_fail ''Invalid username or password''"
proof -
  from assms(2) have "filter (\<lambda>r. username r = name) (users w) = []"
    by (auto simp: filter_empty_conv)
  with assms(1) show ?thesis
    by (simp add: LocalStrategy_def select_users_by_username_def issue_def)
qed

lemma LocalStrategy_mismatch:
  assumes "db_fault e = None"
    and "filter (\<lambda>r. username r = name) (users w) = user # rest"
    and "bcrypt_compare e plain (password user) = Inr False"
  shows "fst (LocalStrategy e w name plain) = Verify_fail ''Invalid username or password''"
  using assms
  by (simp add: LocalStrategy_def select_users_by_username_def compare_password_def issue_def)

text \<open>
  C1. A sign-in attempt under a username with no user row, and a sign-in attempt under an
  existing username whose stored hash the password does not match, end alike: the verify
  callback fails with the message \<^verbatim>\<open>Invalid username or password\<close> in both, and the
  sign-in route answers both with the same 401 page carrying that message. The two
  attempts may run in different states of the store.
\<close>

theorem sign_in_rejections_indistinguishable:
  "db_fault e1 = None \<Longrightarrow> absent \<notin> set (map username (users w1)) \<Longrightarrow>
   db_fault e2 = None \<Longrightarrow> filter (\<lambda>r. username r = existing) (users w2) = user # rest \<Longrightarrow>
   bcrypt_compare e2 wrong (password user) = Inr False \<Longrightarrow>
   fst (LocalStrategy e1 w1 absent anything) = Verify_fail ''Invalid username or password'' \<and>
   fst (LocalStrategy e2 w2 existing wrong) = fst (LocalStrategy e1 w1 absent anything) \<and>
   fst (sign_in_callback e1 (LocalStrategy e1 w1 absent anything)) =
     Render 401 (Sign_in (Some ''Invalid username or password'')) \<and>
   fst (sign_in_callback e2 (LocalStrategy e2 w2 existing wrong)) =
     fst (sign_in_callback e1 (LocalStrategy e1 w1 absent anything))"
  by (simp add: LocalStrategy_absent LocalStrategy_mismatch sign_in_callback_fail)

theorem sign_in_rejections_indistinguishable_witness:
  "db_fault sample_env = None \<and>
   ''bob'' \<notin> set (map username (users sample_world)) \<and>
   filter (\<lambda>r. username r = ''alice'') (users sample_world) = [alice] \<and>
   bcrypt_compare sample_env ''letmein'' (password alice) = Inr False \<and>
   fst (LocalStrategy sample_env sample_world ''bob'' ''pw'') =
     Verify_fail ''Invalid username or password'' \<and>
   fst (LocalStrategy sample_env sample_world ''alice'' ''letmein'') =
     fst (LocalStrategy sample_env sample_world ''bob'' ''pw'') \<and>
   fst (sign_in_callback sample_env (LocalStrategy sample_env sample_world ''bob'' ''pw'')) =
     Render 401 (Sign_in (Some ''Invalid username or password'')) \<and>
   fst (sign_in_callback sample_env (LocalStrategy sample_env sample_world ''alice'' ''letmein'')) =
     fst (sign_in_callback sample_env (LocalStrategy sample_env sample_world ''bob'' ''pw''))"
proof -
  have 1: "db_fault sample_env = None"
    by (simp add: sample_env_def)
  have 2: "''bob'' \<notin> set (map username (users sample_world))"
    by (simp add: sample_world_def alice_def)
  have 3: "filter (\<lambda>r. username r = ''alice'') (users sample_world) = [alice]"
    by (simp add: sample_world_def alice_def)
  have 4: "bcrypt_compare sample_env ''letmein'' (password alice) = Inr False"
    by (simp add: sample_env_def sample_compare_def alice_def)
  show ?thesis
    using 1 2 3 4 sign_in_rejections_indistinguishable [OF 1 2 1 3 4, where anything = "''pw''"]
    by simp
qed

section \<open>Registration\<close>

lemma text_of_Some: "text_of (Some s) = s"
  by (simp add: text_of_def)

lemma falsy_Some: "falsy (Some s) = (s = [])"
  by (simp add: falsy_def)

lemma falsy_None: "falsy None"
  by (simp add: falsy_def)

lemma post_register_fresh:
  assumes "\<not> falsy u" "\<not> falsy p" "db_fault e = None"
    and "bcrypt_hash e (text_of p) 10 = Inr h"
    and "text_of u \<notin> set (map username (users w))"
  shows "fst (post_register e w u p) =
           (if login_fault e = None then Redirect ''/welcome.html'' else Redirect ''/sign-in'')"
    and "users (snd (post_register e w u p)) =
           users w @ [\<lparr>user_id = users_id_seq w, username = text_of u, password = h\<rparr>]"
  using assms
  by (auto simp: post_register_def hash_password_def insert_user_def req_login_def issue_def
      split: option.splits)

lemma post_register_taken:
  assumes "\<not> falsy u" "\<not> falsy p" "db_fault e = None"
    and "bcrypt_hash e (text_of p) 10 = Inr h"
    and "text_of u \<in> set (map username (users w))"
  shows "fst (post_register e w u p) =
           Redirect ''/sign-in?error=Username already exists. Please sign in''"
    and "users (snd (post_register e w u p)) = users w"
  using assms
  by (auto simp: post_register_def hash_password_def insert_user_def issue_def
      register_catch_def unique_violation_def)

text \<open>
  C2. Registering a username twice. On a store that holds no user of that name, with both
  fields of each submission present, the store not failing and the hasher returning a
  hash: the first \<^verbatim>\<open>POST /register\<close> appends one user row holding the first hash and
  redirects (to \<^verbatim>\<open>/welcome.html\<close>, or to \<^verbatim>\<open>/sign-in\<close> when the automatic sign-in
  fails); the second meets the duplicate-key error 23505 of the store and redirects to
  \<^verbatim>\<open>/sign-in\<close> with the message that the username already exists. The second leaves
  the users table as the first left it: one row of that name, with the first hash.
\<close>
theorem register_twice_conflict:
  "name \<noteq> [] \<Longrightarrow> plain1 \<noteq> [] \<Longrightarrow> plain2 \<noteq> [] \<Longrightarrow>
   name \<notin> set (map username (users w)) \<Longrightarrow>
   db_fault e1 = None \<Longrightarrow> bcrypt_hash e1 plain1 10 = Inr h1 \<Longrightarrow>
   db_fault e2 = None \<Longrightarrow> bcrypt_hash e2 plain2 10 = Inr h2 \<Longrightarrow>
   (let (r1, w1) = post_register e1 w (Some name) (Some plain1);
        (r2, w2) = post_register e2 w1 (Some name) (Some plain2)
    in r1 = (if login_fault e1 = None then Redirect ''/welcome.html'' else Redirect ''/sign-in'') \<and>
       users w1 = users w @ [\<lparr>user_id = users_id_seq w, username = name, password = h1\<rparr>] \<and>
       r2 = Redirect ''/sign-in?error=Username already exists. Please sign in'' \<and>
       users w2 = users w1 \<and>
       filter (\<lambda>r. username r = name) (users w2) =
         [\<lparr>user_id = users_id_seq w, username = name, password = h1\<rparr>])"
proof -
  assume a: "name \<noteq> []" "plain1 \<noteq> []" "plain2 \<noteq> []"
    "name \<notin> set (map username (users w))"
    "db_fault e1 = None" "bcrypt_hash e1 plain1 10 = Inr h1"
    "db_fault e2 = None" "bcrypt_hash e2 plain2 10 = Inr h2"
  obtain r1 w1 where 1: "post_register e1 w (Some name) (Some plain1) = (r1, w1)"
    by (cases "post_register e1 w (Some name) (Some plain1)")
  obtain r2 w2 where 2: "post_register e2 w1 (Some name) (Some plain2) = (r2, w2)"
    by (cases "post_register e2 w1 (Some name) (Some plain2)")
  have f: "r1 = (if login_fault e1 = None then Redirect ''/welcome.html'' else Redirect ''/sign-in'')"
    "users w1 = users w @ [\<lparr>user_id = users_id_seq w, username = name, password = h1\<rparr>]"
    using post_register_fresh [of "Some name" "Some plain1" e1 h1 w] a 1
    by (simp_all add: falsy_Some text_of_Some)
  then have taken: "name \<in> set (map username (users w1))"
    by simp
  have g: "r2 = Redirect ''/sign-in?error=Username already exists. Please sign in''"
    "users w2 = users w1"
    using post_register_taken [of "Some name" "Some plain2" e2 h2 w1] a taken 2
    by (simp_all add: falsy_Some text_of_Some)
  have "filter (\<lambda>r. username r = name) (users w) = []"
    using a(4) by (auto simp: filter_empty_conv)
  then have h: "filter (\<lambda>r. username r = name) (users w2) =
         [\<lparr>user_id = users_id_seq w, username = name, password = h1\<rparr>]"
    using f(2) g(2) by simp
  show ?thesis
    using 1 2 f g h by simp
qed

theorem register_twice_conflict_witness:
  "''alice'' \<notin> set (map username (users empty_world)) \<and>
   db_fault sample_env = None \<and>
   bcrypt_hash sample_env ''pw'' 10 = Inr ''$2b$10$wp'' \<and>
   bcrypt_hash sample_env ''other'' 10 = Inr ''$2b$10$rehto'' \<and>
   (let (r1, w1) = post_register sample_env empty_world (Some ''alice'') (Some ''pw'');
        (r2, w2) = post_register sample_env w1 (Some ''alice'') (Some ''other'')
    in r1 = Redirect ''/welcome.html'' \<and>
       users w1 = [alice] \<and>
       r2 = Redirect ''/sign-in?error=Username already exists. Please sign in'' \<and>
       users w2 = [alice])"
proof -
  have 1: "''alice'' \<noteq> []" "''pw'' \<noteq> []" "''other'' \<noteq> []"
    by simp_all
  have 2: "''alice'' \<notin> set (map username (users empty_world))"
    by (simp add: empty_world_def)
  have 3: "db_fault sample_env = None"
    by (simp add: sample_env_def)
  have 4: "bcrypt_hash sample_env ''pw'' 10 = Inr ''$2b$10$wp''"
    by (simp add: sample_env_def sample_hash_def)
  have 5: "bcrypt_hash sample_env ''other'' 10 = Inr ''$2b$10$rehto''"
    by (simp add: sample_env_def sample_hash_def)
  have 6: "login_fault sample_env = None" "users_id_seq empty_world = 1" "users empty_world = []"
    by (simp_all add: sample_env_def empty_world_def)
  show ?thesis
    using 2 3 4 5 6 register_twice_conflict [OF 1 2 3 4 3 5]
    by (simp add: alice_def split: prod.splits)
qed

text \<open>
  C3, as stated, fails: a registration with both fields present and a fresh username whose
  automatic sign-in fails is answered with a redirect to \<^verbatim>\<open>/sign-in\<close>, not with 500.
\<close>

theorem register_login_failure_counterexample:
  "\<not> falsy (Some ''alice'') \<and> \<not> falsy (Some ''pw'') \<and>
   ''alice'' \<notin> set (map username (users empty_world)) \<and>
   login_fault login_failing_env = Some session_lost \<and>
   fst (post_register login_failing_env empty_world (Some ''alice'') (Some ''pw'')) =
     Redirect ''/sign-in'' \<and>
   fst (post_register login_failing_env empty_world (Some ''alice'') (Some ''pw'')) \<noteq>
     Render 500 (Register (Some ''Internal server error.''))"
  by (simp add: falsy_def text_of_def login_failing_env_def sample_env_def sample_hash_def
      empty_world_def post_register_def hash_password_def insert_user_def req_login_def issue_def)

text \<open>
  C3, amended. Every \<^verbatim>\<open>POST /register\<close> is answered in one of these ways. With a field
  missing: 400. With both fields present:
  \<^item> a rejection by the hasher, or by the store, with an error whose code is not 23505:
    500;
  \<^item> a rejection by the hasher, or by the store, with an error whose code is 23505, which
    is what the store raises for a taken username: the redirect to \<^verbatim>\<open>/sign-in\<close> with
    the message that the username already exists, and with a taken username no row is
    added;
  \<^item> a failure of the automatic sign-in after the row was inserted: a redirect to
    \<^verbatim>\<open>/sign-in\<close>, and the row stays;
  \<^item> no failure: the redirect to \<^verbatim>\<open>/welcome.html\<close>, the row inserted.

  With both fields present there is no other response than these four.
\<close>

theorem register_failure_responses:
  "(falsy u \<or> falsy p \<longrightarrow>
      fst (post_register e w u p) =
        Render 400 (Register (Some ''Username and password are required.''))) \<and>
   (\<not> falsy u \<and> \<not> falsy p \<longrightarrow>
      (bcrypt_hash e (text_of p) 10 = Inl err1 \<longrightarrow> code err1 \<noteq> Some ''23505'' \<longrightarrow>
         fst (post_register e w u p) = Render 500 (Register (Some ''Internal server error.''))) \<and>
      (bcrypt_hash e (text_of p) 10 = Inl err1 \<longrightarrow> code err1 = Some ''23505'' \<longrightarrow>
         fst (post_register e w u p) =
           Redirect ''/sign-in?error=Username already exists. Please sign in'') \<and>
      (bcrypt_hash e (text_of p) 10 = Inr h \<longrightarrow> db_fault e = Some err2 \<longrightarrow>
         code err2 \<noteq> Some ''23505'' \<longrightarrow>
         fst (post_register e w u p) = Render 500 (Register (Some ''Internal server error.''))) \<and>
      (bcrypt_hash e (text_of p) 10 = Inr h \<longrightarrow> db_fault e = Some err2 \<longrightarrow>
         code err2 = Some ''23505'' \<longrightarrow>
         fst (post_register e w u p) =
           Redirect ''/sign-in?error=Username already exists. Please sign in'') \<and>
      (bcrypt_hash e (text_of p) 10 = Inr h \<longrightarrow> db_fault e = None \<longrightarrow>
         text_of u \<in> set (map username (users w)) \<longrightarrow>
         fst (post_register e w u p) =
           Redirect ''/sign-in?error=Username already exists. Please sign in'' \<and>
         users (snd (post_register e w u p)) = users w) \<and>
      (bcrypt_hash e (text_of p) 10 = Inr h \<longrightarrow> db_fault e = None \<longrightarrow>
         text_of u \<notin> set (map username (users w)) \<longrightarrow> login_fault e = Some err3 \<longrightarrow>
         fst (post_register e w u p) = Redirect ''/sign-in'' \<and>
         users (snd (post_register e w u p)) =
           users w @ [\<lparr>user_id = users_id_seq w, username = text_of u, password = h\<rparr>]) \<and>
      (bcrypt_hash e (text_of p) 10 = Inr h \<longrightarrow> db_fault e = None \<longrightarrow>
         text_of u \<notin> set (map username (users w)) \<longrightarrow> login_fault e = None \<longrightarrow>
         fst (post_register e w u p) = Redirect ''/welcome.html'' \<and>
         users (snd (post_register e w u p)) =
           users w @ [\<lparr>user_id = users_id_seq w, username = text_of u, password = h\<rparr>]) \<and>
      fst (post_register e w u p) \<in>
        {Render 500 (Register (Some ''Internal server error.'')),
         Redirect ''/sign-in?error=Username already exists. Please sign in'',
         Redirect ''/sign-in'',
         Redirect ''/welcome.html''})"
proof (intro conjI impI)
  assume "falsy u \<or> falsy p"
  then show "fst (post_register e w u p) =
      Render 400 (Register (Some ''Username and password are required.''))"
    by (auto simp: post_register_def)
next
  assume both: "\<not> falsy u \<and> \<not> falsy p"
  show "fst (post_register e w u p) \<in>
        {Render 500 (Register (Some ''Internal server error.'')),
         Redirect ''/sign-in?error=Username already exists. Please sign in'',
         Redirect ''/sign-in'',
         Redirect ''/welcome.html''}"
  proof (cases "bcrypt_hash e (text_of p) 10")
    case (Inl err)
    with both show ?thesis
      by (simp add: post_register_def hash_password_def register_catch_def)
  next
    case (Inr hashed)
    show ?thesis
    proof (cases "db_fault e")
      case (Some err)
      with both Inr show ?thesis
        by (simp add: post_register_def hash_password_def insert_user_def issue_def
            register_catch_def)
    next
      case None
      show ?thesis
      proof (cases "text_of u \<in> set (map username (users w))")
        case True
        with both Inr None show ?thesis
          by (simp add: post_register_def hash_password_def insert_user_def issue_def
              register_catch_def unique_violation_def)
      next
        case False
        with both Inr None show ?thesis
          by (cases "login_fault e")
            (simp_all add: post_register_def hash_password_def insert_user_def req_login_def
              issue_def)
      qed
    qed
  qed
qed (simp_all add: post_register_def hash_password_def insert_user_def req_login_def issue_def
    register_catch_def unique_violation_def)

theorem register_failure_responses_witness:
  "fst (post_register sample_env empty_world None (Some ''pw'')) =
     Render 400 (Register (Some ''Username and password are required.'')) \<and>
   fst (post_register hash_failing_env empty_world (Some ''alice'') (Some ''pw'')) =
     Render 500 (Register (Some ''Internal server error.'')) \<and>
   fst (post_register coded_hash_failing_env empty_world (Some ''alice'') (Some ''pw'')) =
     Redirect ''/sign-in?error=Username already exists. Please sign in'' \<and>
   fst (post_register store_failing_env empty_world (Some ''alice'') (Some ''pw'')) =
     Render 500 (Register (Some ''Internal server error.'')) \<and>
   fst (post_register duplicate_reporting_env empty_world (Some ''alice'') (Some ''pw'')) =
     Redirect ''/sign-in?error=Username already exists. Please sign in'' \<and>
   fst (post_register sample_env sample_world (Some ''alice'') (Some ''pw'')) =
     Redirect ''/sign-in?error=Username already exists. Please sign in'' \<and>
   users (snd (post_register sample_env sample_world (Some ''alice'') (Some ''pw''))) = [alice] \<and>
   fst (post_register login_failing_env empty_world (Some ''alice'') (Some ''pw'')) =
     Redirect ''/sign-in'' \<and>
   users (snd (post_register login_failing_env empty_world (Some ''alice'') (Some ''pw''))) =
     [alice] \<and>
   fst (post_register sample_env empty_world (Some ''alice'') (Some ''pw'')) =
     Redirect ''/welcome.html'' \<and>
   users (snd (post_register sample_env empty_world (Some ''alice'') (Some ''pw''))) = [alice]"
proof -
  have p: "falsy None" "\<not> falsy (Some ''alice'')" "\<not> falsy (Some ''pw'')"
    by (simp_all add: falsy_def)
  have t: "text_of (Some ''pw'') = ''pw''" "text_of (Some ''alice'') = ''alice''"
    by (simp_all add: text_of_def)
  have h1: "bcrypt_hash hash_failing_env ''pw'' 10 = Inl hash_failure"
    "code hash_failure \<noteq> Some ''23505''"
    by (simp_all add: hash_failing_env_def hash_failure_def)
  have h2: "bcrypt_hash coded_hash_failing_env ''pw'' 10 = Inl unique_violation"
    "code unique_violation = Some ''23505''"
    by (simp_all add: coded_hash_failing_env_def unique_violation_def)
  have h3: "bcrypt_hash store_failing_env ''pw'' 10 = Inr ''$2b$10$wp''"
    "db_fault store_failing_env = Some connection_lost"
    "code connection_lost \<noteq> Some ''23505''"
    by (simp_all add: store_failing_env_def sample_env_def sample_hash_def connection_lost_def)
  have h4: "bcrypt_hash duplicate_reporting_env ''pw'' 10 = Inr ''$2b$10$wp''"
    "db_fault duplicate_reporting_env = Some unique_violation"
    by (simp_all add: duplicate_reporting_env_def sample_env_def sample_hash_def)
  have h5: "bcrypt_hash sample_env ''pw'' 10 = Inr ''$2b$10$wp''"
    "db_fault sample_env = None" "login_fault sample_env = None"
    "''alice'' \<in> set (map username (users sample_world))"
    "''alice'' \<notin> set (map username (users empty_world))"
    by (simp_all add: sample_env_def sample_hash_def sample_world_def empty_world_def alice_def)
  have h6: "bcrypt_hash login_failing_env ''pw'' 10 = Inr ''$2b$10$wp''"
    "db_fault login_failing_env = None"
    "login_fault login_failing_env = Some session_lost"
    by (simp_all add: login_failing_env_def sample_env_def sample_hash_def)
  have w: "users empty_world = []" "users_id_seq empty_world = 1" "users sample_world = [alice]"
    by (simp_all add: empty_world_def sample_world_def)
  show ?thesis
    using register_failure_responses [where u = None and p = "Some ''pw''" and
        e = sample_env and w = empty_world]
      register_failure_responses [where u = "Some ''alice''" and p = "Some ''pw''" and
        e = hash_failing_env and ?err1.0 = hash_failure and w = empty_world]
      register_failure_responses [where u = "Some ''alice''" and p = "Some ''pw''" and
        e = coded_hash_failing_env and ?err1.0 = unique_violation and w = empty_world]
      register_failure_responses [where u = "Some ''alice''" and p = "Some ''pw''" and
        e = store_failing_env and h = "''$2b$10$wp''" and ?err2.0 = connection_lost and
        w = empty_world]
      register_failure_responses [where u = "Some ''alice''" and p = "Some ''pw''" and
        e = duplicate_reporting_env and h = "''$2b$10$wp''" and ?err2.0 = unique_violation and
        w = empty_world]
      register_failure_responses [where u = "Some ''alice''" and p = "Some ''pw''" and
        e = sample_env and h = "''$2b$10$wp''" and w = sample_world]
      register_failure_responses [where u = "Some ''alice''" and p = "Some ''pw''" and
        e = login_failing_env and h = "''$2b$10$wp''" and ?err3.0 = session_lost and
        w = empty_world]
      register_failure_responses [where u = "Some ''alice''" and p = "Some ''pw''" and
        e = sample_env and h = "''$2b$10$wp''" and w = empty_world]
      p t h1 h2 h3 h4 h5 h6 w
    by (simp add: alice_def)
qed

section \<open>Listing and reading posts\<close>

lemma insort_key_snoc:
  "f x \<le> f y \<Longrightarrow> insort_key f x (ws @ [y]) = insort_key f x ws @ [y]"
  by (induction ws) auto

lemma sort_key_snoc:
  "\<forall>x\<in>set xs. f x \<le> f y \<Longrightarrow> sort_key f (xs @ [y]) = sort_key f xs @ [y]"
  by (induction xs) (auto simp: insort_key_snoc)

lemma get_home_rows:
  "db_fault e = None \<Longrightarrow> fst (get_home e w) = Render 200 (Home (rev (sort_key post_id (posts w))))"
  by (simp add: get_home_def select_posts_order_by_id_desc_def issue_def)

lemma get_home_fault:
  "db_fault e = Some err \<Longrightarrow> get_home e w =
     (Render 200 (Home []), issue (Db_query ''SELECT * FROM posts ORDER BY id DESC'' []) w)"
  by (simp add: get_home_def select_posts_order_by_id_desc_def)

lemma post_write_created:
  assumes "db_fault e = None" "t \<noteq> []" "c \<noteq> []"
  shows "posts (snd (post_write e w (Some user) (Some t) (Some c))) =
           posts w @ [\<lparr>post_id = posts_id_seq w, title = t, content = c, author = username user\<rparr>]"
    and "posts_id_seq (snd (post_write e w (Some user) (Some t) (Some c))) = posts_id_seq w + 1"
  using assms
  by (simp_all add: post_write_def ensureAuthenticated_def isAuthenticated_def write_handler_def
      falsy_def text_of_def insert_post_def issue_def)

text \<open>
  C4. \<^verbatim>\<open>GET /\<close> always renders the home page with rows whose ids descend, and when the
  store does not fail these rows are exactly the rows of the posts table. After three
  posts A, B, C are written in that order to a store whose ids all lie below the next id,
  the page lists C, B, A and then what it listed before; on an empty table that is
  \<open>[C, B, A]\<close>.
\<close>
theorem home_lists_newest_first:
  "(\<exists>rows. fst (get_home e w) = Render 200 (Home rows) \<and> sorted (rev (map post_id rows)) \<and>
      (db_fault e = None \<longrightarrow> mset rows = mset (posts w))) \<and>
   (db_fault e = None \<longrightarrow> tA \<noteq> [] \<longrightarrow> cA \<noteq> [] \<longrightarrow> tB \<noteq> [] \<longrightarrow> cB \<noteq> [] \<longrightarrow>
    tC \<noteq> [] \<longrightarrow> cC \<noteq> [] \<longrightarrow> (\<forall>p\<in>set (posts w). post_id p < posts_id_seq w) \<longrightarrow>
    (let wA = snd (post_write e w (Some uA) (Some tA) (Some cA));
         wB = snd (post_write e wA (Some uB) (Some tB) (Some cB));
         wC = snd (post_write e wB (Some uC) (Some tC) (Some cC))
     in fst (get_home e wC) =
          Render 200 (Home
            ([\<lparr>post_id = posts_id_seq w + 2, title = tC, content = cC, author = username uC\<rparr>,
              \<lparr>post_id = posts_id_seq w + 1, title = tB, content = cB, author = username uB\<rparr>,
              \<lparr>post_id = posts_id_seq w, title = tA, content = cA, author = username uA\<rparr>]
             @ rev (sort_key post_id (posts w))))))"
proof (intro conjI impI)
  show "\<exists>rows. fst (get_home e w) = Render 200 (Home rows) \<and> sorted (rev (map post_id rows)) \<and>
      (db_fault e = None \<longrightarrow> mset rows = mset (posts w))"
  proof (cases "db_fault e")
    case None
    then show ?thesis
      by (simp add: get_home_rows rev_map)
  next
    case (Some err)
    then show ?thesis
      by (simp add: get_home_fault)
  qed
next
  assume nf: "db_fault e = None"
    and ne: "tA \<noteq> []" "cA \<noteq> []" "tB \<noteq> []" "cB \<noteq> []" "tC \<noteq> []" "cC \<noteq> []"
    and inv: "\<forall>p\<in>set (posts w). post_id p < posts_id_seq w"
  define wA where "wA = snd (post_write e w (Some uA) (Some tA) (Some cA))"
  define wB where "wB = snd (post_write e wA (Some uB) (Some tB) (Some cB))"
  define wC where "wC = snd (post_write e wB (Some uC) (Some tC) (Some cC))"
  define A where "A = \<lparr>post_id = posts_id_seq w, title = tA, content = cA, author = username uA\<rparr>"
  define B where "B = \<lparr>post_id = posts_id_seq w + 1, title = tB, content = cB, author = username uB\<rparr>"
  define C where "C = \<lparr>post_id = posts_id_seq w + 2, title = tC, content = cC, author = username uC\<rparr>"
  have pA: "posts wA = posts w @ [A]" and sA: "posts_id_seq wA = posts_id_seq w + 1"
    unfolding wA_def A_def using post_write_created [OF nf ne(1) ne(2)] by simp_all
  have pB: "posts wB = (posts w @ [A]) @ [B]" and sB: "posts_id_seq wB = posts_id_seq w + 2"
    unfolding wB_def B_def using post_write_created [OF nf ne(3) ne(4), of wA uB] pA sA
    by simp_all
  have pC: "posts wC = ((posts w @ [A]) @ [B]) @ [C]"
    unfolding wC_def C_def using post_write_created [OF nf ne(5) ne(6), of wB uC] pB sB
    by simp
  have 1: "sort_key post_id (posts w @ [A]) = sort_key post_id (posts w) @ [A]"
    using inv by (intro sort_key_snoc) (auto simp: A_def intro: less_imp_le)
  have 2: "sort_key post_id ((posts w @ [A]) @ [B]) = sort_key post_id (posts w @ [A]) @ [B]"
    using inv by (intro sort_key_snoc) (auto simp: A_def B_def intro: less_imp_le)
  have 3: "sort_key post_id (((posts w @ [A]) @ [B]) @ [C]) =
             sort_key post_id ((posts w @ [A]) @ [B]) @ [C]"
    using inv by (intro sort_key_snoc) (auto simp: A_def B_def C_def intro: less_imp_le)
  have "fst (get_home e wC) = Render 200 (Home ([C, B, A] @ rev (sort_key post_id (posts w))))"
    by (simp only: get_home_rows [OF nf] pC 1 2 3) simp
  then show "let wA = snd (post_write e w (Some uA) (Some tA) (Some cA));
         wB = snd (post_write e wA (Some uB) (Some tB) (Some cB));
         wC = snd (post_write e wB (Some uC) (Some tC) (Some cC))
     in fst (get_home e wC) =
          Render 200 (Home
            ([\<lparr>post_id = posts_id_seq w + 2, title = tC, content = cC, author = username uC\<rparr>,
              \<lparr>post_id = posts_id_seq w + 1, title = tB, content = cB, author = username uB\<rparr>,
              \<lparr>post_id = posts_id_seq w, title = tA, content = cA, author = username uA\<rparr>]
             @ rev (sort_key post_id (posts w))))"
    by (simp add: wA_def wB_def wC_def A_def B_def C_def)
qed


theorem home_lists_newest_first_witness:
  "fst (get_home sample_env
     (snd (post_write sample_env
       (snd (post_write sample_env
         (snd (post_write sample_env empty_world (Some alice) (Some ''A'') (Some ''a'')))
         (Some alice) (Some ''B'') (Some ''b'')))
       (Some alice) (Some ''C'') (Some ''c'')))) =
     Render 200 (Home
       [\<lparr>post_id = 3, title = ''C'', content = ''c'', author = ''alice''\<rparr>,
        \<lparr>post_id = 2, title = ''B'', content = ''b'', author = ''alice''\<rparr>,
        \<lparr>post_id = 1, title = ''A'', content = ''a'', author = ''alice''\<rparr>])"
proof -
  have 1: "db_fault sample_env = None"
    by (simp add: sample_env_def)
  have 2: "\<forall>p\<in>set (posts empty_world). post_id p < posts_id_seq empty_world"
    "posts empty_world = []" "posts_id_seq empty_world = 1" "username alice = ''alice''"
    by (simp_all add: empty_world_def alice_def)
  show ?thesis
    using 1 2 home_lists_newest_first [of sample_env empty_world "''A''" "''a''" "''B''" "''b''" "''C''" "''c''"
        alice alice alice]
    by (simp add: Let_def)
qed

text \<open>
  C5. When the query for the post list fails, \<^verbatim>\<open>GET /\<close> still renders the home page,
  with status 200 and an empty list of posts, and the tables are untouched.
\<close>
theorem home_swallows_store_failure:
  "db_fault e = Some err \<Longrightarrow>
     fst (get_home e w) = Render 200 (Home []) \<and>
     users (snd (get_home e w)) = users w \<and> posts (snd (get_home e w)) = posts w"
  by (simp add: get_home_fault issue_def)

theorem home_swallows_store_failure_witness:
  "db_fault store_failing_env = Some connection_lost \<and>
   posts sample_world \<noteq> [] \<and>
   fst (get_home store_failing_env sample_world) = Render 200 (Home [])"
proof -
  have 1: "db_fault store_failing_env = Some connection_lost"
    by (simp add: store_failing_env_def)
  have 2: "posts sample_world \<noteq> []"
    by (simp add: sample_world_def)
  show ?thesis
    using 1 2 home_swallows_store_failure [OF 1, of sample_world] by simp
qed

text \<open>
  C6. A \<^verbatim>\<open>POST /write\<close> on a request that is not authenticated is answered with a
  redirect to \<^verbatim>\<open>/sign-in\<close>, whatever its fields; the state is returned as it was: no
  post row is created and no query is sent.
\<close>
theorem write_unauthenticated_redirects:
  "\<not> isAuthenticated req_user \<Longrightarrow>
     post_write e w req_user title_field content_field = (Redirect ''/sign-in'', w)"
  by (simp add: post_write_def ensureAuthenticated_def)

theorem write_unauthenticated_redirects_witness:
  "\<not> isAuthenticated None \<and>
   post_write sample_env sample_world None (Some ''Title'') (Some ''Text'') =
     (Redirect ''/sign-in'', sample_world)"
proof -
  have 1: "\<not> isAuthenticated None"
    by (simp add: isAuthenticated_def)
  show ?thesis
    using 1 write_unauthenticated_redirects [OF 1, of sample_env sample_world "Some ''Title''" "Some ''Text''"] by simp
qed

text \<open>
  C7. When the store answers and holds no user row of the id kept in the session,
  \<^verbatim>\<open>deserializeUser\<close> calls \<^verbatim>\<open>done(null, false)\<close>. It calls \<^verbatim>\<open>done(error)\<close> when the
  store fails, and never when the store answers.
\<close>
theorem deserialize_missing_user_unauthenticated:
  "(db_fault e = None \<longrightarrow> i \<notin> set (map user_id (users w)) \<longrightarrow>
      fst (deserializeUser e w i) = Deserialize_false) \<and>
   (db_fault e = None \<longrightarrow> fst (deserializeUser e w i) \<noteq> Deserialize_error err) \<and>
   (db_fault e = Some err \<longrightarrow> fst (deserializeUser e w i) = Deserialize_error err)"
proof (intro conjI impI)
  assume nf: "db_fault e = None" and "i \<notin> set (map user_id (users w))"
  then have "filter (\<lambda>r. user_id r = i) (users w) = []"
    by (auto simp: filter_empty_conv)
  with nf show "fst (deserializeUser e w i) = Deserialize_false"
    by (simp add: deserializeUser_def select_users_by_id_def issue_def)
next
  assume "db_fault e = None"
  then show "fst (deserializeUser e w i) \<noteq> Deserialize_error err"
    by (simp add: deserializeUser_def select_users_by_id_def issue_def split: list.splits)
next
  assume "db_fault e = Some err"
  then show "fst (deserializeUser e w i) = Deserialize_error err"
    by (simp add: deserializeUser_def select_users_by_id_def)
qed

theorem deserialize_missing_user_unauthenticated_witness:
  "db_fault sample_env = None \<and> 7 \<notin> set (map user_id (users sample_world)) \<and>
   fst (deserializeUser sample_env sample_world 7) = Deserialize_false \<and>
   db_fault store_failing_env = Some connection_lost \<and>
   fst (deserializeUser store_failing_env sample_world 7) = Deserialize_error connection_lost"
proof -
  have 1: "db_fault sample_env = None"
    by (simp add: sample_env_def)
  have 2: "7 \<notin> set (map user_id (users sample_world))"
    by (simp add: sample_world_def alice_def)
  have 3: "db_fault store_failing_env = Some connection_lost"
    by (simp add: store_failing_env_def)
  show ?thesis
    using 1 2 3 deserialize_missing_user_unauthenticated [of sample_env 7 sample_world]
      deserialize_missing_user_unauthenticated [of store_failing_env 7 sample_world connection_lost]
    by simp
qed

text \<open>
  C8, as stated, fails: for \<^verbatim>\<open>GET /posts/two\<close> no post of the given id exists and the
  store is up, yet the response is 500, not 404, since the store rejects the text as no
  integer and the handler answers every rejected lookup with 500.
\<close>

theorem get_post_rejected_id_counterexample:
  "db_fault sample_env = None \<and> int4in sample_env ''two'' = None \<and>
   fst (get_post sample_env sample_world ''two'') = Send 500 ''Server error'' \<and>
   fst (get_post sample_env sample_world ''two'') \<noteq> Send 404 ''Post not found''"
  by (simp add: sample_env_def sample_int4in_def get_post_def select_posts_by_id_def)

text \<open>
  C8, amended. \<^verbatim>\<open>GET /posts/:id\<close>: when the lookup succeeds (the store is up and reads
  the id text as an integer) and the store holds no post of that id, the response is 404
  \<^verbatim>\<open>Post not found\<close>; when the lookup fails (the store is down, or it rejects the text
  as no integer), the response is 500; otherwise the first row found is rendered.
\<close>

theorem get_post_responses:
  "(db_fault e = None \<longrightarrow> int4in e idtext = Some i \<longrightarrow> i \<notin> set (map post_id (posts w)) \<longrightarrow>
      fst (get_post e w idtext) = Send 404 ''Post not found'') \<and>
   (db_fault e = Some err \<longrightarrow> fst (get_post e w idtext) = Send 500 ''Server error'') \<and>
   (db_fault e = None \<longrightarrow> int4in e idtext = None \<longrightarrow>
      fst (get_post e w idtext) = Send 500 ''Server error'') \<and>
   (db_fault e = None \<longrightarrow> int4in e idtext = Some i \<longrightarrow>
      filter (\<lambda>r. post_id r = i) (posts w) = row # rest \<longrightarrow>
      fst (get_post e w idtext) = Render 200 (Post row))"
proof (intro conjI impI)
  assume nf: "db_fault e = None" "int4in e idtext = Some i"
    and "i \<notin> set (map post_id (posts w))"
  then have "filter (\<lambda>r. post_id r = i) (posts w) = []"
    by (auto simp: filter_empty_conv)
  with nf show "fst (get_post e w idtext) = Send 404 ''Post not found''"
    by (simp add: get_post_def select_posts_by_id_def issue_def)
next
  assume "db_fault e = Some err"
  then show "fst (get_post e w idtext) = Send 500 ''Server error''"
    by (simp add: get_post_def select_posts_by_id_def)
next
  assume "db_fault e = None" "int4in e idtext = None"
  then show "fst (get_post e w idtext) = Send 500 ''Server error''"
    by (simp add: get_post_def select_posts_by_id_def)
next
  assume "db_fault e = None" "int4in e idtext = Some i"
    "filter (\<lambda>r. post_id r = i) (posts w) = row # rest"
  then show "fst (get_post e w idtext) = Render 200 (Post row)"
    by (simp add: get_post_def select_posts_by_id_def issue_def)
qed

theorem get_post_responses_witness:
  "fst (get_post sample_env sample_world ''9'') = Send 404 ''Post not found'' \<and>
   fst (get_post store_failing_env sample_world ''2'') = Send 500 ''Server error'' \<and>
   fst (get_post sample_env sample_world ''two'') = Send 500 ''Server error'' \<and>
   fst (get_post sample_env sample_world ''2'') =
     Render 200 (Post \<lparr>post_id = 2, title = ''Again'', content = ''Second post'', author = ''alice''\<rparr>)"
proof -
  have 1: "db_fault sample_env = None" "db_fault store_failing_env = Some connection_lost"
    by (simp_all add: sample_env_def store_failing_env_def)
  have 2: "int4in sample_env ''9'' = Some 9" "int4in sample_env ''2'' = Some 2"
    "int4in sample_env ''two'' = None"
    by (simp_all add: sample_env_def sample_int4in_def)
  have 3: "9 \<notin> set (map post_id (posts sample_world))"
    "filter (\<lambda>r. post_id r = 2) (posts sample_world) =
       \<lparr>post_id = 2, title = ''Again'', content = ''Second post'', author = ''alice''\<rparr> # []"
    by (simp_all add: sample_world_def)
  show ?thesis
    using 1 2 3 get_post_responses [of sample_env "''9''" 9 sample_world]
      get_post_responses [of store_failing_env "''2''" _ sample_world connection_lost]
      get_post_responses [of sample_env "''two''" _ sample_world]
      get_post_responses [of sample_env "''2''" 2 sample_world _
         "\<lparr>post_id = 2, title = ''Again'', content = ''Second post'', author = ''alice''\<rparr>" "[]"]
    by simp
qed

text \<open>
  C10. The required-field checks of \<^verbatim>\<open>POST /register\<close> and \<^verbatim>\<open>POST /write\<close> test for
  falsiness: the empty text is falsy as the absent field is, and either route answers a
  request with an empty field as it answers the same request with that field absent. A
  registration with a falsy field, and a write by a signed-in user with a falsy field,
  are answered with 400 and return the state as it was: no call to the hasher, no query,
  no row.
\<close>
theorem empty_field_is_missing_field:
  "falsy (Some []) \<and> falsy None \<and>
   post_register e w (Some []) password_field = post_register e w None password_field \<and>
   post_register e w username_field (Some []) = post_register e w username_field None \<and>
   post_write e w req_user (Some []) content_field = post_write e w req_user None content_field \<and>
   post_write e w req_user title_field (Some []) = post_write e w req_user title_field None \<and>
   (falsy username_field \<or> falsy password_field \<longrightarrow>
      post_register e w username_field password_field =
        (Render 400 (Register (Some ''Username and password are required.'')), w)) \<and>
   (falsy title_field \<or> falsy content_field \<longrightarrow>
      post_write e w (Some user) title_field content_field =
        (Render 400 (Write (Some ''Title and content are required.'') None), w))"
  by (simp add: falsy_def post_register_def post_write_def ensureAuthenticated_def
      isAuthenticated_def write_handler_def)

theorem empty_field_is_missing_field_witness:
  "post_register sample_env sample_world (Some []) (Some ''pw'') =
     post_register sample_env sample_world None (Some ''pw'') \<and>
   post_register sample_env sample_world (Some []) (Some ''pw'') =
     (Render 400 (Register (Some ''Username and password are required.'')), sample_world) \<and>
   post_write sample_env sample_world (Some alice) (Some ''Title'') (Some []) =
     post_write sample_env sample_world (Some alice) (Some ''Title'') None \<and>
   post_write sample_env sample_world (Some alice) (Some ''Title'') (Some []) =
     (Render 400 (Write (Some ''Title and content are required.'') None), sample_world)"
  using empty_field_is_missing_field [where username_field = "Some []" and password_field = "Some ''pw''" and
      e = sample_env and w = sample_world and title_field = "Some ''Title''" and
      content_field = "Some []" and user = alice and req_user = "Some alice"]
  by (auto simp: falsy_def)

end
